theory Spec2Isabelle
  imports Main "HOL-Library.AList"
begin

section \<open>Values exchanged with the transit service\<close>

text \<open>
  The body of a response is JSON. Numbers are the integers (the only numbers the
  code inspects are status codes); an object is the list of its members.
\<close>

datatype json =
    JNull
  | JBool bool
  | JNum int
  | JStr string
  | JArr "json list"
  | JObj "(string \<times> json) list"

text \<open>A Python \<open>dict\<close> with string keys: the list of its items.\<close>

type_synonym 'v dict = "(string \<times> 'v) list"

text \<open>
  An f-string is kept as its parts: literal text and the values formatted into it.
\<close>

datatype fpart = Lit string | Fmt json

type_synonym fstring = "fpart list"

text \<open>
  The exceptions that can leave the client and the coordinator.
  \<open>AuthenticationError\<close> is a subclass of \<open>CUMTDAPIError\<close> (api.py);
  \<open>TransportError\<close> stands for what the HTTP library raises when the network is
  unreachable or the 10 second timeout passes; \<open>UpdateFailed\<close> is raised by the
  coordinator \<open>from\<close> the error it caught, which it carries.
\<close>

datatype exn =
    CUMTDAPIError fstring
  | AuthenticationError fstring
  | TransportError string
  | JSONDecodeError
  | KeyError string
  | TypeError
  | ValidationError
  | UpdateFailed exn

text \<open>\<open>except AuthenticationError\<close> and \<open>except CUMTDAPIError\<close> as class tests.\<close>

fun isinstance_AuthenticationError :: "exn \<Rightarrow> bool" where
  "isinstance_AuthenticationError (AuthenticationError _) = True"
| "isinstance_AuthenticationError _ = False"

fun isinstance_CUMTDAPIError :: "exn \<Rightarrow> bool" where
  "isinstance_CUMTDAPIError (CUMTDAPIError _) = True"
| "isinstance_CUMTDAPIError (AuthenticationError _) = True"
| "isinstance_CUMTDAPIError _ = False"

section \<open>Data models (api.py)\<close>

datatype datetime = Datetime int int int int int

record Route =
  route_id :: string
  route_short_name :: "string option"

text \<open>
  \<open>trip\<close> is declared \<open>dict\<close>; its values are typed as the accessors declare them,
  \<open>str | None\<close>. The field itself is optional here, although the class requires it,
  because both accessors guard on its truthiness and so accept \<open>None\<close> as well as
  the empty dictionary.
\<close>

record Departure =
  stop_id :: string
  headsign :: string
  route :: Route
  trip :: "string option dict option"
  expected :: datetime
  expected_mins :: int
  scheduled :: datetime
  is_monitored :: bool

text \<open>Python's truth value of a dictionary and of a \<open>str | None\<close>.\<close>

fun truthy_dict :: "'v dict option \<Rightarrow> bool" where
  "truthy_dict None = False"
| "truthy_dict (Some m) = (m \<noteq> [])"

fun truthy_str :: "string option \<Rightarrow> bool" where
  "truthy_str None = False"
| "truthy_str (Some s) = (s \<noteq> [])"

text \<open>\<open>d.get(key)\<close>: the stored value, \<open>None\<close> when the key is missing.\<close>

definition dict_get :: "'v option dict \<Rightarrow> string \<Rightarrow> 'v option" where
  "dict_get m k = (case map_of m k of None \<Rightarrow> None | Some v \<Rightarrow> v)"

text \<open>\<open>self.trip.get("direction") if self.trip else None\<close>, and the same for \<open>trip_id\<close>.\<close>

definition direction :: "Departure \<Rightarrow> string option" where
  "direction self =
     (if truthy_dict (trip self)
      then (case trip self of Some t \<Rightarrow> dict_get t ''direction'' | None \<Rightarrow> None)
      else None)"

definition trip_id :: "Departure \<Rightarrow> string option" where
  "trip_id self =
     (if truthy_dict (trip self)
      then (case trip self of Some t \<Rightarrow> dict_get t ''trip_id'' | None \<Rightarrow> None)
      else None)"

record DeparturesResponse =
  time :: datetime
  departures :: "Departure list"

section \<open>The client (api.py)\<close>

text \<open>
  What \<open>client.get(url, params=params)\<close> gives back: it raises, or returns a response
  with an HTTP status and a body that \<open>response.json()\<close> parses or rejects.
  \<open>_request\<close> is declared to return a \<open>dict\<close>: a parsed body is a JSON object.
  The HTTP client that \<open>_ensure_client\<close> creates on first use is the \<open>transport\<close>
  that the functions below take; its creation is not modelled.
\<close>

record Response =
  status_code :: int
  json_result :: "exn + json dict"

type_synonym transport = "string \<Rightarrow> json dict \<Rightarrow> exn + Response"

definition BASE_URL :: string where
  "BASE_URL = ''https://developer.cumtd.com/api/v2.2/json''"

text \<open>
  \<open>v[key]\<close> on a parsed value: a \<open>KeyError\<close> when an object lacks the key, a
  \<open>TypeError\<close> when the value is no object.
\<close>

definition subscript :: "json \<Rightarrow> string \<Rightarrow> exn + json" where
  "subscript v k =
     (case v of
        JObj items \<Rightarrow> (case map_of items k of None \<Rightarrow> Inl (KeyError k) | Some x \<Rightarrow> Inr x)
      | _ \<Rightarrow> Inl TypeError)"

text \<open>
  \<open>_request\<close>. The comparison \<open>!= 200\<close> of a parsed value with the integer 200 is
  inequality with \<open>JNum 200\<close>: no string, boolean, list, object or \<open>None\<close> equals 200.
\<close>

definition request :: "transport \<Rightarrow> string \<Rightarrow> string \<Rightarrow> json dict \<Rightarrow> exn + json dict" where
  "request get api_key method params =
     (let url = BASE_URL @ ''/'' @ method;
          params = AList.update ''key'' (JStr api_key) params
      in case get url params of
           Inl err \<Rightarrow> Inl err
         | Inr response \<Rightarrow>
             if status_code response = 401
             then Inl (AuthenticationError [Lit ''Invalid API key''])
             else (case json_result response of
                     Inl err \<Rightarrow> Inl err
                   | Inr data \<Rightarrow>
                       (case map_of data ''status'' of
                          None \<Rightarrow> Inr data
                        | Some status \<Rightarrow>
                            (case subscript status ''code'' of
                               Inl err \<Rightarrow> Inl err
                             | Inr code \<Rightarrow>
                                 if code \<noteq> JNum 200
                                 then (case subscript status ''msg'' of
                                         Inl err \<Rightarrow> Inl err
                                       | Inr msg \<Rightarrow>
                                           Inl (CUMTDAPIError
                                                  [Lit ''API error '', Fmt code, Lit '': '', Fmt msg]))
                                 else Inr data))))"

definition validate_api_key :: "transport \<Rightarrow> string \<Rightarrow> exn + bool" where
  "validate_api_key get api_key =
     (case request get api_key ''getstops'' [] of
        Inr _ \<Rightarrow> Inr True
      | Inl err \<Rightarrow>
          if isinstance_AuthenticationError err then Inl err
          else if isinstance_CUMTDAPIError err then Inr True
          else Inl err)"

text \<open>
  \<open>for d in v\<close> over a parsed value: a list gives its elements, an object its keys, a
  string its characters; nothing else can be iterated.
\<close>

fun iter :: "json \<Rightarrow> exn + json list" where
  "iter (JArr xs) = Inr xs"
| "iter (JObj items) = Inr (map (\<lambda>(k, _). JStr k) items)"
| "iter (JStr s) = Inr (map (\<lambda>c. JStr [c]) s)"
| "iter _ = Inl TypeError"

text \<open>
  \<open>[Departure(**d) for d in ...]\<close>. Building a \<open>Departure\<close> from keyword arguments is
  the validation of the model library, a parameter here (\<open>Departure_init\<close>); \<open>**d\<close>
  itself is a \<open>TypeError\<close> unless \<open>d\<close> is a mapping. The first error ends the loop.
\<close>

fun Departure_list :: "(json dict \<Rightarrow> exn + Departure) \<Rightarrow> json list \<Rightarrow> exn + Departure list" where
  "Departure_list Departure_init [] = Inr []"
| "Departure_list Departure_init (d # ds) =
     (case (case d of JObj kwargs \<Rightarrow> Departure_init kwargs | _ \<Rightarrow> Inl TypeError) of
        Inl err \<Rightarrow> Inl err
      | Inr x \<Rightarrow>
          (case Departure_list Departure_init ds of
             Inl err \<Rightarrow> Inl err
           | Inr xs \<Rightarrow> Inr (x # xs)))"

text \<open>
  \<open>get_departures_by_stop\<close>. Its dictionary of query parameters is
  \<open>departures_params\<close>. The keyword arguments of \<open>DeparturesResponse(...)\<close> are
  evaluated in order, \<open>data["time"]\<close> first, then the list; the validation of \<open>time\<close>
  as a \<open>datetime\<close> (the model library again, the parameter \<open>validate_datetime\<close>) comes
  last.
\<close>

definition departures_params :: "string \<Rightarrow> string option \<Rightarrow> int option \<Rightarrow> json dict" where
  "departures_params sid rid cnt =
     [(''stop_id'', JStr sid),
      (''route_id'', case rid of None \<Rightarrow> JNull | Some r \<Rightarrow> JStr r),
      (''count'', case cnt of None \<Rightarrow> JNull | Some n \<Rightarrow> JNum n)]"

definition get_departures_by_stop ::
  "(json \<Rightarrow> exn + datetime) \<Rightarrow> (json dict \<Rightarrow> exn + Departure) \<Rightarrow> transport \<Rightarrow> string \<Rightarrow>
   string \<Rightarrow> string option \<Rightarrow> int option \<Rightarrow> exn + DeparturesResponse" where
  "get_departures_by_stop validate_datetime Departure_init get api_key sid rid cnt =
     (let params = departures_params sid rid cnt
      in case request get api_key ''getdeparturesbystop'' params of
           Inl err \<Rightarrow> Inl err
         | Inr data \<Rightarrow>
             (case map_of data ''time'' of
                None \<Rightarrow> Inl (KeyError ''time'')
              | Some t \<Rightarrow>
                  (case iter (case map_of data ''departures'' of None \<Rightarrow> JArr [] | Some v \<Rightarrow> v) of
                     Inl err \<Rightarrow> Inl err
                   | Inr ds \<Rightarrow>
                       (case Departure_list Departure_init ds of
                          Inl err \<Rightarrow> Inl err
                        | Inr deps \<Rightarrow>
                            (case validate_datetime t of
                               Inl err \<Rightarrow> Inl err
                             | Inr t' \<Rightarrow> Inr \<lparr>time = t', departures = deps\<rparr>)))))"

section \<open>The coordinator (coordinator.py)\<close>

text \<open>
  \<open>str.lower\<close> is a builtin of the language, defined on all of Unicode, and is not
  code of the integration: the functions below take it as the parameter \<open>lower\<close>.
\<close>

type_synonym str_lower = "string \<Rightarrow> string"

text \<open>
  The coordinator's own fields. Its \<open>client\<close> is not a field here: the awaited call
  \<open>self.client.get_departures_by_stop(stop_id=..., route_id=..., count=5)\<close> is the
  function \<open>fetch\<close> that \<open>async_update_data\<close> takes, which is
  \<open>get_departures_by_stop\<close> applied to a transport and a key, or any stand-in for it.
\<close>

record CUMTDBusCoordinator =
  stop_id :: string
  stop_name :: string
  route_id :: "string option"
  direction_filter :: "string option"

type_synonym fetch = "string \<Rightarrow> string option \<Rightarrow> int option \<Rightarrow> exn + DeparturesResponse"

text \<open>
  The condition of the list comprehension:
  \<open>d.direction and self.direction_filter.lower() == d.direction.lower()\<close>.
\<close>

definition direction_matches :: "str_lower \<Rightarrow> string \<Rightarrow> Departure \<Rightarrow> bool" where
  "direction_matches lower f d =
     (truthy_str (direction d) \<and>
      (case direction d of None \<Rightarrow> False | Some s \<Rightarrow> lower f = lower s))"

text \<open>
  \<open>_async_update_data\<close>. The \<open>try\<close> encloses the whole body and catches
  \<open>CUMTDAPIError\<close> only; the only place of the body that raises is the awaited call.
  The debug logging has no effect on the result.
\<close>

definition async_update_data ::
  "str_lower \<Rightarrow> fetch \<Rightarrow> CUMTDBusCoordinator \<Rightarrow> exn + Departure option" where
  "async_update_data lower fetch self =
     (case fetch (stop_id self) (route_id self) (Some 5) of
        Inl err \<Rightarrow>
          if isinstance_CUMTDAPIError err then Inl (UpdateFailed err) else Inl err
      | Inr response \<Rightarrow>
          if departures response = [] then Inr None
          else
            (let deps =
                   (if truthy_str (direction_filter self)
                    then (case direction_filter self of
                            Some f \<Rightarrow> filter (direction_matches lower f) (departures response)
                          | None \<Rightarrow> departures response)
                    else departures response)
             in case deps of
                  [] \<Rightarrow> Inr None
                | next_departure # _ \<Rightarrow> Inr (Some next_departure)))"

section \<open>The refresh cycle\<close>

record RefreshState =
  last_data :: "Departure option"
  last_success :: bool

text \<open>
  Modelled from the spec: the scheduler that runs \<open>_async_update_data\<close> on every tick
  and keeps \<open>last_data\<close> and \<open>last_success\<close> is the base class of the coordinator,
  \<open>DataUpdateCoordinator\<close> of the host platform, which is not among the sources. The
  spec (4.3, 7): a tick that succeeds replaces \<open>last_data\<close>, also with absent, and sets
  \<open>last_success\<close>; a tick that fails, whatever the failure, clears \<open>last_success\<close> and
  leaves \<open>last_data\<close> as it was.
\<close>

definition refresh :: "RefreshState \<Rightarrow> exn + Departure option \<Rightarrow> RefreshState" where
  "refresh st outcome =
     (case outcome of
        Inr data \<Rightarrow> \<lparr>last_data = data, last_success = True\<rparr>
      | Inl err \<Rightarrow> st\<lparr>last_success := False\<rparr>)"

text \<open>
  Modelled from the spec: one tick of that scheduler, which runs the refresh of the
  coordinator (the code above) and updates the state with its outcome.
\<close>

definition tick ::
  "str_lower \<Rightarrow> fetch \<Rightarrow> CUMTDBusCoordinator \<Rightarrow> RefreshState \<Rightarrow> RefreshState" where
  "tick lower fetch self st = refresh st (async_update_data lower fetch self)"

section \<open>Values of the test suite\<close>

text \<open>
  The departures that the tests of the coordinator build (the westbound one with the three
  minutes of the scenario in the spec), a coordinator for the test stop, and a client
  whose call returns or raises a fixed outcome, as the mocked client of the tests does.
\<close>

definition departure_east :: Departure where
  "departure_east =
     \<lparr>Departure.stop_id = ''TESTIUTERM'', headsign = ''5E Green'',
      route = \<lparr>Route.route_id = ''5'', route_short_name = None\<rparr>,
      trip = Some [(''trip_id'', Some ''trip_123''), (''direction'', Some ''Eastbound'')],
      expected = Datetime 2026 1 17 14 30, expected_mins = 5,
      scheduled = Datetime 2026 1 17 14 28, is_monitored = True\<rparr>"

definition departure_west :: Departure where
  "departure_west =
     \<lparr>Departure.stop_id = ''TESTIUTERM'', headsign = ''5W Teal'',
      route = \<lparr>Route.route_id = ''5'', route_short_name = None\<rparr>,
      trip = Some [(''trip_id'', Some ''trip_456''), (''direction'', Some ''Westbound'')],
      expected = Datetime 2026 1 17 14 28, expected_mins = 3,
      scheduled = Datetime 2026 1 17 14 26, is_monitored = True\<rparr>"

definition departure_upper :: Departure where
  "departure_upper =
     \<lparr>Departure.stop_id = ''TESTIUTERM'', headsign = ''5E Green'',
      route = \<lparr>Route.route_id = ''5'', route_short_name = None\<rparr>,
      trip = Some [(''trip_id'', Some ''trip_123''), (''direction'', Some ''EASTBOUND'')],
      expected = Datetime 2026 1 17 14 31, expected_mins = 6,
      scheduled = Datetime 2026 1 17 14 29, is_monitored = True\<rparr>"

definition departure_no_direction :: Departure where
  "departure_no_direction =
     \<lparr>Departure.stop_id = ''TESTIUTERM'', headsign = ''10 Illini'',
      route = \<lparr>Route.route_id = ''10'', route_short_name = None\<rparr>,
      trip = Some [(''trip_id'', Some ''trip_456'')],
      expected = Datetime 2026 1 17 14 32, expected_mins = 7,
      scheduled = Datetime 2026 1 17 14 30, is_monitored = True\<rparr>"

definition test_coordinator :: "string option \<Rightarrow> CUMTDBusCoordinator" where
  "test_coordinator f =
     \<lparr>stop_id = ''TESTIUTERM'', stop_name = ''Test Illinois Terminal'',
      route_id = Some ''5'', direction_filter = f\<rparr>"

definition mock_client :: "exn + DeparturesResponse \<Rightarrow> fetch" where
  "mock_client outcome sid rid cnt = outcome"

definition test_response :: "Departure list \<Rightarrow> DeparturesResponse" where
  "test_response ds = \<lparr>time = Datetime 2026 1 17 14 25, departures = ds\<rparr>"

text \<open>
  Transports: one that answers every request with the same response, as a recorded
  cassette does, and one that cannot reach the server. Bodies with and without the
  \<open>status\<close> object, and none with a \<open>departures\<close> key. Stand-ins for the two
  validations of the model library.
\<close>

definition respond :: "Response \<Rightarrow> transport" where
  "respond response url params = Inr response"

definition unreachable :: transport where
  "unreachable url params = Inl (TransportError ''ConnectError'')"

definition body_ok :: "json dict" where
  "body_ok =
     [(''time'', JStr ''2026-01-17T14:25:00-06:00''),
      (''status'', JObj [(''code'', JNum 200), (''msg'', JStr ''ok'')])]"

definition body_error :: "json dict" where
  "body_error =
     [(''time'', JStr ''2026-01-17T14:25:00-06:00''),
      (''status'', JObj [(''code'', JNum 500), (''msg'', JStr ''Internal server error'')])]"

definition body_no_status :: "json dict" where
  "body_no_status = [(''time'', JStr ''2026-01-17T14:25:00-06:00'')]"

text \<open>
  \<open>str.lower\<close> on ASCII text, for the concrete instances: the letters \<open>A\<close> to
  \<open>Z\<close>, codes 65 to 90, get bit \<open>0x20\<close> set, which adds 32; every other character
  stays. On text without characters beyond ASCII this is what \<open>str.lower\<close> computes.
\<close>

definition ascii_lower_char :: "char \<Rightarrow> char" where
  "ascii_lower_char c =
     (if 65 \<le> (of_char c :: nat) \<and> (of_char c :: nat) \<le> 90
      then (case c of Char b0 b1 b2 b3 b4 b5 b6 b7 \<Rightarrow> Char b0 b1 b2 b3 b4 True b6 b7)
      else c)"

definition ascii_lower :: str_lower where
  "ascii_lower s = map ascii_lower_char s"

definition test_validate_datetime :: "json \<Rightarrow> exn + datetime" where
  "test_validate_datetime v =
     (if v = JStr ''2026-01-17T14:25:00-06:00'' then Inr (Datetime 2026 1 17 14 25)
      else Inl ValidationError)"

definition test_Departure_init :: "json dict \<Rightarrow> exn + Departure" where
  "test_Departure_init kwargs = Inl ValidationError"

section \<open>The accessors of a departure\<close>

lemma direction_eq:
  "direction d = (case trip d of None \<Rightarrow> None | Some t \<Rightarrow> dict_get t ''direction'')"
  by (cases "trip d") (auto simp: direction_def dict_get_def)

lemma trip_id_eq:
  "trip_id d = (case trip d of None \<Rightarrow> None | Some t \<Rightarrow> dict_get t ''trip_id'')"
  by (cases "trip d") (auto simp: trip_id_def dict_get_def)

text \<open>
  C9. Both accessors are total functions into \<open>string option\<close>: no input makes them
  raise. They return \<open>None\<close> when the trip mapping is missing (\<open>None\<close>), when it
  is empty, and when it lacks the key that the accessor reads.
\<close>

theorem accessors_tolerate_trip:
  "(trip d = None \<or> trip d = Some [] \<longrightarrow> direction d = None \<and> trip_id d = None) \<and>
   (\<forall>t. trip d = Some t \<and> ''direction'' \<notin> fst ` set t \<longrightarrow> direction d = None) \<and>
   (\<forall>t. trip d = Some t \<and> ''trip_id'' \<notin> fst ` set t \<longrightarrow> trip_id d = None)"
proof (intro conjI allI impI)
  assume "trip d = None \<or> trip d = Some []"
  then show "direction d = None" by (auto simp: direction_def)
next
  assume "trip d = None \<or> trip d = Some []"
  then show "trip_id d = None" by (auto simp: trip_id_def)
next
  fix t assume "trip d = Some t \<and> ''direction'' \<notin> fst ` set t"
  then have "trip d = Some t" and "map_of t ''direction'' = None"
    by (simp_all add: map_of_eq_None_iff)
  then show "direction d = None" by (simp add: direction_eq dict_get_def)
next
  fix t assume "trip d = Some t \<and> ''trip_id'' \<notin> fst ` set t"
  then have "trip d = Some t" and "map_of t ''trip_id'' = None"
    by (simp_all add: map_of_eq_None_iff)
  then show "trip_id d = None" by (simp add: trip_id_eq dict_get_def)
qed

theorem accessors_tolerate_trip_witness:
  "direction (departure_east\<lparr>trip := None\<rparr>) = None \<and>
   trip_id (departure_east\<lparr>trip := Some []\<rparr>) = None \<and>
   direction departure_no_direction = None \<and>
   trip_id (departure_east\<lparr>trip := Some [(''direction'', Some ''Eastbound'')]\<rparr>) = None \<and>
   trip_id departure_no_direction = Some ''trip_456''"
proof -
  have "direction (departure_east\<lparr>trip := None\<rparr>) = None"
    using accessors_tolerate_trip [of "departure_east\<lparr>trip := None\<rparr>"] by simp
  moreover have "trip_id (departure_east\<lparr>trip := Some []\<rparr>) = None"
    using accessors_tolerate_trip [of "departure_east\<lparr>trip := Some []\<rparr>"] by simp
  moreover have "direction departure_no_direction = None"
    using accessors_tolerate_trip [of departure_no_direction]
    by (simp add: departure_no_direction_def)
  moreover have
    "trip_id (departure_east\<lparr>trip := Some [(''direction'', Some ''Eastbound'')]\<rparr>) = None"
    using accessors_tolerate_trip
      [of "departure_east\<lparr>trip := Some [(''direction'', Some ''Eastbound'')]\<rparr>"]
    by simp
  moreover have "trip_id departure_no_direction = Some ''trip_456''"
    by (simp add: trip_id_def dict_get_def departure_no_direction_def)
  ultimately show ?thesis by simp
qed

section \<open>Selecting the next departure\<close>

lemma ascii_lower_Nil_iff: "ascii_lower s = [] \<longleftrightarrow> s = []"
  by (simp add: ascii_lower_def)

lemma first_of_filter: "(case filter P xs of [] \<Rightarrow> None | x # _ \<Rightarrow> Some x) = find P xs"
  by (induction xs) auto

text \<open>
  With a filter that is set, the condition of the comprehension is: the direction is
  present and equal to the filter after \<open>str.lower\<close> on both. The truth test on the
  direction adds nothing, given the one fact about \<open>str.lower\<close> that is used: its result
  is empty for the empty string and for no other. So an empty direction does not equal a
  set filter after lowering.
\<close>

lemma direction_matches_iff:
  assumes "f \<noteq> []"
      and "\<forall>s. lower s = [] \<longleftrightarrow> s = []"
  shows "direction_matches lower f d \<longleftrightarrow>
         (case direction d of None \<Rightarrow> False | Some s \<Rightarrow> lower s = lower f)"
proof (cases "direction d")
  case None
  then show ?thesis by (simp add: direction_matches_def)
next
  case (Some s)
  show ?thesis
  proof (cases "s = []")
    case True
    from assms have "lower f \<noteq> []" and "lower [] = []" by simp_all
    then have "lower [] \<noteq> lower f" by simp
    with Some True show ?thesis
      by (simp add: direction_matches_def)
  next
    case False
    with Some show ?thesis by (auto simp: direction_matches_def)
  qed
qed

lemma async_update_data_success:
  assumes "fetch (stop_id self) (route_id self) (Some 5) = Inr response"
  shows "async_update_data lower fetch self =
         Inr (case direction_filter self of
                None \<Rightarrow> (case departures response of [] \<Rightarrow> None | d # _ \<Rightarrow> Some d)
              | Some f \<Rightarrow>
                  if f = [] then (case departures response of [] \<Rightarrow> None | d # _ \<Rightarrow> Some d)
                  else find (direction_matches lower f) (departures response))"
proof (cases "departures response")
  case Nil
  with assms show ?thesis
    by (simp add: async_update_data_def split: option.splits)
next
  case (Cons d ds)
  show ?thesis
  proof (cases "direction_filter self")
    case None
    with Cons assms show ?thesis by (simp add: async_update_data_def)
  next
    case (Some f)
    with Cons assms show ?thesis
      by (simp add: async_update_data_def first_of_filter [symmetric] split: list.splits)
  qed
qed

text \<open>
  C1. When the call returns a response and the direction filter \<open>f\<close> is set, so not
  empty, the refresh yields the first departure of the response, in the order of the
  response, whose direction is present and equals \<open>f\<close> up to case, and yields absent
  when there is none: \<open>find\<close> runs through the list from its head and never reorders it.
  Equality up to case is what the code computes: equality of the two results of
  \<open>str.lower\<close>. That builtin is the parameter \<open>lower\<close>, of which the theorem assumes
  only that it gives the empty string for the empty string and for no other string, as
  \<open>str.lower\<close> does on every text, ASCII or not.
\<close>

theorem first_direction_match:
  assumes "fetch (stop_id self) (route_id self) (Some 5) = Inr response"
      and "direction_filter self = Some f"
      and "f \<noteq> []"
      and "\<forall>s. lower s = [] \<longleftrightarrow> s = []"
  shows "async_update_data lower fetch self =
         Inr (find (\<lambda>d. case direction d of None \<Rightarrow> False | Some s \<Rightarrow> lower s = lower f)
                (departures response))"
proof -
  have "direction_matches lower f =
        (\<lambda>d. case direction d of None \<Rightarrow> False | Some s \<Rightarrow> lower s = lower f)"
    using direction_matches_iff [OF assms(3,4)] by (simp add: fun_eq_iff)
  with async_update_data_success [where lower = lower, of fetch self response] assms(1,2,3)
  show ?thesis by simp
qed

theorem first_direction_match_witness:
  "(\<forall>s. ascii_lower s = [] \<longleftrightarrow> s = []) \<and>
   ascii_lower ''EASTBOUND'' = ''eastbound'' \<and> ascii_lower ''Eastbound'' = ''eastbound'' \<and>
   ascii_lower ''Westbound'' = ''westbound'' \<and>
   async_update_data ascii_lower
     (mock_client (Inr (test_response [departure_no_direction, departure_west, departure_east])))
     (test_coordinator (Some ''eastbound'')) = Inr (Some departure_east) \<and>
   expected_mins departure_east = 5 \<and> expected_mins departure_west = 3 \<and>
   async_update_data ascii_lower
     (mock_client (Inr (test_response [departure_west, departure_upper, departure_east])))
     (test_coordinator (Some ''eastbound'')) = Inr (Some departure_upper) \<and>
   async_update_data ascii_lower
     (mock_client (Inr (test_response [departure_east, departure_west])))
     (test_coordinator (Some ''WESTBOUND'')) = Inr (Some departure_west) \<and>
   async_update_data ascii_lower
     (mock_client (Inr (test_response [departure_no_direction, departure_west])))
     (test_coordinator (Some ''eastbound'')) = Inr None"
proof -
  let ?self = "test_coordinator (Some ''eastbound'')"
  let ?west = "test_coordinator (Some ''WESTBOUND'')"
  have e: "\<forall>s. ascii_lower s = [] \<longleftrightarrow> s = []"
    by (simp add: ascii_lower_Nil_iff)
  have f: "direction_filter ?self = Some ''eastbound''"
    and fw: "direction_filter ?west = Some ''WESTBOUND''"
    by (simp_all add: test_coordinator_def)
  have ne: "''eastbound'' \<noteq> []" and nw: "''WESTBOUND'' \<noteq> []" by simp_all
  have dirs: "direction departure_no_direction = None"
    "direction departure_west = Some ''Westbound''"
    "direction departure_east = Some ''Eastbound''"
    "direction departure_upper = Some ''EASTBOUND''"
    by (simp_all add: direction_def dict_get_def departure_no_direction_def departure_west_def
        departure_east_def departure_upper_def)
  have low: "ascii_lower ''EASTBOUND'' = ''eastbound''" "ascii_lower ''Eastbound'' = ''eastbound''"
    "ascii_lower ''Westbound'' = ''westbound''" "ascii_lower ''WESTBOUND'' = ''westbound''"
    "ascii_lower ''eastbound'' = ''eastbound''"
    by (simp_all add: ascii_lower_def ascii_lower_char_def)
  have r1: "mock_client (Inr (test_response [departure_no_direction, departure_west, departure_east]))
              (stop_id ?self) (route_id ?self) (Some 5)
            = Inr (test_response [departure_no_direction, departure_west, departure_east])"
    and r2: "mock_client (Inr (test_response [departure_west, departure_upper, departure_east]))
              (stop_id ?self) (route_id ?self) (Some 5)
            = Inr (test_response [departure_west, departure_upper, departure_east])"
    and r3: "mock_client (Inr (test_response [departure_east, departure_west]))
              (stop_id ?west) (route_id ?west) (Some 5)
            = Inr (test_response [departure_east, departure_west])"
    and r4: "mock_client (Inr (test_response [departure_no_direction, departure_west]))
              (stop_id ?self) (route_id ?self) (Some 5)
            = Inr (test_response [departure_no_direction, departure_west])"
    by (simp_all add: mock_client_def)
  have "async_update_data ascii_lower
          (mock_client (Inr (test_response [departure_no_direction, departure_west, departure_east])))
          ?self = Inr (Some departure_east)"
    using first_direction_match
      [where lower = ascii_lower,
       of "mock_client (Inr (test_response [departure_no_direction, departure_west, departure_east]))"
          ?self "test_response [departure_no_direction, departure_west, departure_east]"
          "''eastbound''"] r1 f ne e
    by (simp add: test_response_def dirs low)
  moreover have "async_update_data ascii_lower
          (mock_client (Inr (test_response [departure_west, departure_upper, departure_east])))
          ?self = Inr (Some departure_upper)"
    using first_direction_match
      [where lower = ascii_lower,
       of "mock_client (Inr (test_response [departure_west, departure_upper, departure_east]))"
          ?self "test_response [departure_west, departure_upper, departure_east]"
          "''eastbound''"] r2 f ne e
    by (simp add: test_response_def dirs low)
  moreover have "async_update_data ascii_lower
          (mock_client (Inr (test_response [departure_east, departure_west])))
          ?west = Inr (Some departure_west)"
    using first_direction_match
      [where lower = ascii_lower,
       of "mock_client (Inr (test_response [departure_east, departure_west]))"
          ?west "test_response [departure_east, departure_west]" "''WESTBOUND''"] r3 fw nw e
    by (simp add: test_response_def dirs low)
  moreover have "async_update_data ascii_lower
          (mock_client (Inr (test_response [departure_no_direction, departure_west])))
          ?self = Inr None"
    using first_direction_match
      [where lower = ascii_lower,
       of "mock_client (Inr (test_response [departure_no_direction, departure_west]))"
          ?self "test_response [departure_no_direction, departure_west]" "''eastbound''"] r4 f ne e
    by (simp add: test_response_def dirs low)
  moreover have "expected_mins departure_east = 5" "expected_mins departure_west = 3"
    by (simp_all add: departure_east_def departure_west_def)
  ultimately show ?thesis using e low by simp
qed

text \<open>
  C2. An empty list of departures gives absent, whatever the filter; a list with a
  first element and no filter gives that first element.
\<close>

theorem empty_list_and_no_filter:
  "(fetch (stop_id self) (route_id self) (Some 5) = Inr response \<and> departures response = []
      \<longrightarrow> async_update_data lower fetch self = Inr None) \<and>
   (fetch (stop_id self) (route_id self) (Some 5) = Inr response \<and>
    departures response = d # ds \<and> direction_filter self = None
      \<longrightarrow> async_update_data lower fetch self = Inr (Some d))"
  by (simp add: async_update_data_def)

theorem empty_list_and_no_filter_witness:
  "async_update_data ascii_lower (mock_client (Inr (test_response []))) (test_coordinator (Some ''Eastbound''))
     = Inr None \<and>
   async_update_data ascii_lower (mock_client (Inr (test_response []))) (test_coordinator None) = Inr None \<and>
   async_update_data ascii_lower (mock_client (Inr (test_response [departure_west, departure_east])))
     (test_coordinator None) = Inr (Some departure_west)"
proof -
  have "async_update_data ascii_lower (mock_client (Inr (test_response [])))
          (test_coordinator (Some ''Eastbound'')) = Inr None"
    using empty_list_and_no_filter
      [where lower = ascii_lower, of "mock_client (Inr (test_response []))" "test_coordinator (Some ''Eastbound'')"
          "test_response []"]
    by (simp add: mock_client_def test_response_def)
  moreover have "async_update_data ascii_lower (mock_client (Inr (test_response []))) (test_coordinator None)
      = Inr None"
    using empty_list_and_no_filter
      [where lower = ascii_lower, of "mock_client (Inr (test_response []))" "test_coordinator None" "test_response []"]
    by (simp add: mock_client_def test_response_def)
  moreover have "async_update_data ascii_lower (mock_client (Inr (test_response [departure_west, departure_east])))
          (test_coordinator None) = Inr (Some departure_west)"
    using empty_list_and_no_filter
      [where lower = ascii_lower, of "mock_client (Inr (test_response [departure_west, departure_east]))"
          "test_coordinator None" "test_response [departure_west, departure_east]"
          departure_west "[departure_east]"]
    by (simp add: mock_client_def test_response_def test_coordinator_def)
  ultimately show ?thesis by simp
qed

text \<open>
  C10. The filter is active when the filter string is truthy, so the empty string
  counts as no filter: the refresh does what it does with the filter unset, on every
  outcome of the call, and on a list with a first element it selects that element, also
  when the element has no direction or another one.
\<close>

theorem empty_filter_is_no_filter:
  "async_update_data lower fetch (self\<lparr>direction_filter := Some ''''\<rparr>) =
   async_update_data lower fetch (self\<lparr>direction_filter := None\<rparr>) \<and>
   (fetch (stop_id self) (route_id self) (Some 5) = Inr response \<and>
    departures response = d # ds \<and> direction_filter self = Some ''''
      \<longrightarrow> async_update_data lower fetch self = Inr (Some d))"
proof (intro conjI impI)
  show "async_update_data lower fetch (self\<lparr>direction_filter := Some ''''\<rparr>) =
        async_update_data lower fetch (self\<lparr>direction_filter := None\<rparr>)"
    by (cases "fetch (stop_id self) (route_id self) (Some 5)")
       (simp_all add: async_update_data_def)
next
  assume "fetch (stop_id self) (route_id self) (Some 5) = Inr response \<and>
          departures response = d # ds \<and> direction_filter self = Some ''''"
  then show "async_update_data lower fetch self = Inr (Some d)"
    by (simp add: async_update_data_def)
qed

theorem empty_filter_is_no_filter_witness:
  "direction_filter (test_coordinator (Some '''')) = Some '''' \<and>
   async_update_data ascii_lower (mock_client (Inr (test_response [departure_no_direction, departure_east])))
     (test_coordinator (Some '''')) = Inr (Some departure_no_direction) \<and>
   direction departure_no_direction = None"
proof -
  let ?fetch = "mock_client (Inr (test_response [departure_no_direction, departure_east]))"
  let ?self = "test_coordinator (Some '''')"
  have h: "?fetch (stop_id ?self) (route_id ?self) (Some 5)
             = Inr (test_response [departure_no_direction, departure_east]) \<and>
           departures (test_response [departure_no_direction, departure_east])
             = departure_no_direction # [departure_east] \<and>
           direction_filter ?self = Some ''''"
    by (simp add: mock_client_def test_response_def test_coordinator_def)
  have "async_update_data ascii_lower ?fetch ?self = Inr (Some departure_no_direction)"
    using empty_filter_is_no_filter
      [where lower = ascii_lower, of ?fetch ?self "test_response [departure_no_direction, departure_east]"
          departure_no_direction "[departure_east]"] h
    by blast
  moreover have "direction departure_no_direction = None"
    by (simp add: direction_def dict_get_def departure_no_direction_def)
  ultimately show ?thesis using h by simp
qed

section \<open>The refresh cycle on success and on an API error\<close>

text \<open>
  C3. When the call of a tick raises \<open>CUMTDAPIError\<close> or its subclass
  \<open>AuthenticationError\<close>, the coordinator raises \<open>UpdateFailed\<close> from it, and the
  tick leaves \<open>last_data\<close> as it was and ends with \<open>last_success\<close> false.
\<close>

theorem api_error_keeps_last_data:
  assumes "fetch (stop_id self) (route_id self) (Some 5) = Inl err"
      and "isinstance_CUMTDAPIError err"
  shows "async_update_data lower fetch self = Inl (UpdateFailed err) \<and>
         last_data (tick lower fetch self st) = last_data st \<and>
         last_success (tick lower fetch self st) = False"
  using assms by (simp add: tick_def refresh_def async_update_data_def)

theorem api_error_keeps_last_data_witness:
  "isinstance_CUMTDAPIError (CUMTDAPIError [Lit ''Connection failed'']) \<and>
   isinstance_CUMTDAPIError (AuthenticationError [Lit ''Invalid API key'']) \<and>
   tick ascii_lower (mock_client (Inl (CUMTDAPIError [Lit ''Connection failed''])))
     (test_coordinator None) \<lparr>last_data = Some departure_east, last_success = True\<rparr>
     = \<lparr>last_data = Some departure_east, last_success = False\<rparr> \<and>
   tick ascii_lower (mock_client (Inl (AuthenticationError [Lit ''Invalid API key''])))
     (test_coordinator None) \<lparr>last_data = Some departure_east, last_success = True\<rparr>
     = \<lparr>last_data = Some departure_east, last_success = False\<rparr> \<and>
   tick ascii_lower (get_departures_by_stop test_validate_datetime test_Departure_init
           (respond \<lparr>status_code = 200, json_result = Inr body_error\<rparr>) ''key'')
     (test_coordinator None) \<lparr>last_data = Some departure_east, last_success = True\<rparr>
     = \<lparr>last_data = Some departure_east, last_success = False\<rparr>"
proof -
  let ?st = "\<lparr>last_data = Some departure_east, last_success = True\<rparr>"
  let ?self = "test_coordinator None"
  let ?client = "get_departures_by_stop test_validate_datetime test_Departure_init
           (respond \<lparr>status_code = 200, json_result = Inr body_error\<rparr>) ''key''"
  let ?api_error = "CUMTDAPIError
         [Lit ''API error '', Fmt (JNum 500), Lit '': '', Fmt (JStr ''Internal server error'')]"
  have fc: "?client (stop_id ?self) (route_id ?self) (Some 5) = Inl ?api_error"
    by (simp add: get_departures_by_stop_def request_def respond_def body_error_def subscript_def)
  have c: "tick ascii_lower ?client ?self ?st = \<lparr>last_data = Some departure_east, last_success = False\<rparr>"
    using api_error_keeps_last_data [where lower = ascii_lower, of ?client ?self ?api_error ?st] fc
    by simp
  have a: "isinstance_CUMTDAPIError (CUMTDAPIError [Lit ''Connection failed''])"
    and b: "isinstance_CUMTDAPIError (AuthenticationError [Lit ''Invalid API key''])"
    by simp_all
  have fa: "mock_client (Inl (CUMTDAPIError [Lit ''Connection failed'']))
              (stop_id ?self) (route_id ?self) (Some 5)
            = Inl (CUMTDAPIError [Lit ''Connection failed''])"
    and fb: "mock_client (Inl (AuthenticationError [Lit ''Invalid API key'']))
              (stop_id ?self) (route_id ?self) (Some 5)
            = Inl (AuthenticationError [Lit ''Invalid API key''])"
    by (simp_all add: mock_client_def)
  have "tick ascii_lower (mock_client (Inl (CUMTDAPIError [Lit ''Connection failed'']))) ?self ?st
          = \<lparr>last_data = Some departure_east, last_success = False\<rparr>"
    using api_error_keeps_last_data
      [where lower = ascii_lower, of "mock_client (Inl (CUMTDAPIError [Lit ''Connection failed'']))" ?self
          "CUMTDAPIError [Lit ''Connection failed'']" ?st] fa a
    by simp
  moreover have "tick ascii_lower (mock_client (Inl (AuthenticationError [Lit ''Invalid API key'']))) ?self ?st
          = \<lparr>last_data = Some departure_east, last_success = False\<rparr>"
    using api_error_keeps_last_data
      [where lower = ascii_lower, of "mock_client (Inl (AuthenticationError [Lit ''Invalid API key'']))" ?self
          "AuthenticationError [Lit ''Invalid API key'']" ?st] fb b
    by simp
  ultimately show ?thesis using a b c by simp
qed

text \<open>
  C4. A tick whose refresh returns, with a departure or with absent, replaces
  \<open>last_data\<close> by what it returned and sets \<open>last_success\<close>. A tick whose call
  succeeds always returns; in particular, when a filter is set and no departure of the
  response matches it, the tick ends with \<open>last_data\<close> absent and \<open>last_success\<close> true,
  whatever the state held before.
\<close>

theorem success_overwrites_last_data:
  "(async_update_data lower fetch self = Inr result
      \<longrightarrow> tick lower fetch self st = \<lparr>last_data = result, last_success = True\<rparr>) \<and>
   (fetch (stop_id self) (route_id self) (Some 5) = Inr response
      \<longrightarrow> (\<exists>result. async_update_data lower fetch self = Inr result)) \<and>
   (fetch (stop_id self) (route_id self) (Some 5) = Inr response \<and>
    direction_filter self = Some f \<and> f \<noteq> [] \<and>
    (\<forall>d \<in> set (departures response). \<not> direction_matches lower f d)
      \<longrightarrow> tick lower fetch self st = \<lparr>last_data = None, last_success = True\<rparr>)"
proof (intro conjI impI)
  assume "async_update_data lower fetch self = Inr result"
  then show "tick lower fetch self st = \<lparr>last_data = result, last_success = True\<rparr>"
    by (simp add: tick_def refresh_def)
next
  assume "fetch (stop_id self) (route_id self) (Some 5) = Inr response"
  then show "\<exists>result. async_update_data lower fetch self = Inr result"
    using async_update_data_success [where lower = lower, of fetch self response] by simp
next
  assume h: "fetch (stop_id self) (route_id self) (Some 5) = Inr response \<and>
    direction_filter self = Some f \<and> f \<noteq> [] \<and>
    (\<forall>d \<in> set (departures response). \<not> direction_matches lower f d)"
  then have "find (direction_matches lower f) (departures response) = None"
    by (simp add: find_None_iff)
  with h have "async_update_data lower fetch self = Inr None"
    using async_update_data_success [where lower = lower, of fetch self response] by simp
  then show "tick lower fetch self st = \<lparr>last_data = None, last_success = True\<rparr>"
    by (simp add: tick_def refresh_def)
qed

theorem success_overwrites_last_data_witness:
  "async_update_data ascii_lower (mock_client (Inr (test_response [departure_west])))
     (test_coordinator (Some ''Eastbound'')) = Inr None \<and>
   tick ascii_lower (mock_client (Inr (test_response [departure_west]))) (test_coordinator (Some ''Eastbound''))
     \<lparr>last_data = Some departure_east, last_success = False\<rparr>
     = \<lparr>last_data = None, last_success = True\<rparr> \<and>
   tick ascii_lower (mock_client (Inr (test_response [departure_west]))) (test_coordinator None)
     \<lparr>last_data = Some departure_east, last_success = False\<rparr>
     = \<lparr>last_data = Some departure_west, last_success = True\<rparr> \<and>
   tick ascii_lower (get_departures_by_stop test_validate_datetime test_Departure_init
           (respond \<lparr>status_code = 200, json_result = Inr body_ok\<rparr>) ''key'')
     (test_coordinator None) \<lparr>last_data = Some departure_east, last_success = False\<rparr>
     = \<lparr>last_data = None, last_success = True\<rparr>"
proof -
  let ?client = "get_departures_by_stop test_validate_datetime test_Departure_init
           (respond \<lparr>status_code = 200, json_result = Inr body_ok\<rparr>) ''key''"
  have rc: "async_update_data ascii_lower ?client (test_coordinator None) = Inr None"
    by (simp add: async_update_data_def get_departures_by_stop_def request_def respond_def
        body_ok_def subscript_def test_validate_datetime_def)
  have t3: "tick ascii_lower ?client (test_coordinator None)
              \<lparr>last_data = Some departure_east, last_success = False\<rparr>
            = \<lparr>last_data = None, last_success = True\<rparr>"
    using success_overwrites_last_data
      [where lower = ascii_lower, of ?client "test_coordinator None" None
          "\<lparr>last_data = Some departure_east, last_success = False\<rparr>"] rc
    by blast
  let ?fetch = "mock_client (Inr (test_response [departure_west]))"
  let ?st = "\<lparr>last_data = Some departure_east, last_success = False\<rparr>"
  have nomatch: "\<not> direction_matches ascii_lower ''Eastbound'' departure_west"
    by (simp add: direction_matches_def direction_def dict_get_def departure_west_def
        ascii_lower_def ascii_lower_char_def)
  have h: "?fetch (stop_id (test_coordinator (Some ''Eastbound'')))
             (route_id (test_coordinator (Some ''Eastbound''))) (Some 5)
             = Inr (test_response [departure_west]) \<and>
           direction_filter (test_coordinator (Some ''Eastbound'')) = Some ''Eastbound'' \<and>
           ''Eastbound'' \<noteq> [] \<and>
           (\<forall>d \<in> set (departures (test_response [departure_west])).
              \<not> direction_matches ascii_lower ''Eastbound'' d)"
    using nomatch by (simp add: mock_client_def test_coordinator_def test_response_def)
  have t1: "tick ascii_lower ?fetch (test_coordinator (Some ''Eastbound'')) ?st
          = \<lparr>last_data = None, last_success = True\<rparr>"
    using success_overwrites_last_data
      [where lower = ascii_lower, of ?fetch "test_coordinator (Some ''Eastbound'')" _ ?st "test_response [departure_west]"
          "''Eastbound''"] h
    by blast
  have r0: "async_update_data ascii_lower ?fetch (test_coordinator (Some ''Eastbound'')) = Inr None"
    using nomatch
    by (simp add: async_update_data_def mock_client_def test_coordinator_def test_response_def)
  have r: "async_update_data ascii_lower ?fetch (test_coordinator None) = Inr (Some departure_west)"
    by (simp add: async_update_data_def mock_client_def test_coordinator_def test_response_def)
  have t2: "tick ascii_lower ?fetch (test_coordinator None) ?st
          = \<lparr>last_data = Some departure_west, last_success = True\<rparr>"
    using success_overwrites_last_data
      [where lower = ascii_lower, of ?fetch "test_coordinator None" "Some departure_west" ?st] r
    by blast
  from r0 t1 t2 t3 show ?thesis by simp
qed

section \<open>Requests and their errors\<close>

lemma request_unauthorized:
  assumes "get (BASE_URL @ ''/'' @ method) (AList.update ''key'' (JStr api_key) params) = Inr response"
      and "status_code response = 401"
  shows "request get api_key method params = Inl (AuthenticationError [Lit ''Invalid API key''])"
  using assms by (simp add: request_def)

lemma request_transport_failure:
  assumes "get (BASE_URL @ ''/'' @ method) (AList.update ''key'' (JStr api_key) params) = Inl err"
  shows "request get api_key method params = Inl err"
  using assms by (simp add: request_def)

lemma request_parsed:
  assumes "get (BASE_URL @ ''/'' @ method) (AList.update ''key'' (JStr api_key) params) = Inr response"
      and "status_code response \<noteq> 401"
      and "json_result response = Inr data"
  shows "request get api_key method params =
         (case map_of data ''status'' of
            None \<Rightarrow> Inr data
          | Some status \<Rightarrow>
              (case subscript status ''code'' of
                 Inl err \<Rightarrow> Inl err
               | Inr code \<Rightarrow>
                   if code \<noteq> JNum 200
                   then (case subscript status ''msg'' of
                           Inl err \<Rightarrow> Inl err
                         | Inr msg \<Rightarrow>
                             Inl (CUMTDAPIError [Lit ''API error '', Fmt code, Lit '': '', Fmt msg]))
                   else Inr data))"
  using assms by (simp add: request_def)

lemma request_in_band_error:
  assumes "get (BASE_URL @ ''/'' @ method) (AList.update ''key'' (JStr api_key) params) = Inr response"
      and "status_code response \<noteq> 401"
      and "json_result response = Inr data"
      and "map_of data ''status'' = Some (JObj status)"
      and "map_of status ''code'' = Some code"
      and "map_of status ''msg'' = Some msg"
      and "code \<noteq> JNum 200"
  shows "request get api_key method params =
         Inl (CUMTDAPIError [Lit ''API error '', Fmt code, Lit '': '', Fmt msg])"
  using request_parsed [of get "method" api_key params response data] assms
  by (simp add: subscript_def)

text \<open>
  C6. For a call that gets a response: with HTTP status 401 it raises
  \<open>AuthenticationError\<close>, whatever the body is and whether or not it parses; with any
  other HTTP status and a parsed body that holds a status object (with its \<open>code\<close> and
  \<open>msg\<close>) whose code is not 200, it raises \<open>CUMTDAPIError\<close> with that code and message;
  with a parsed body that has no status, or a status object with code 200, it returns
  the body.
\<close>

theorem request_classification:
  assumes "get (BASE_URL @ ''/'' @ method) (AList.update ''key'' (JStr api_key) params) = Inr response"
  shows
    "(status_code response = 401 \<longrightarrow>
        request get api_key method params = Inl (AuthenticationError [Lit ''Invalid API key''])) \<and>
     (status_code response \<noteq> 401 \<and> json_result response = Inr data \<and>
      map_of data ''status'' = Some (JObj status) \<and>
      map_of status ''code'' = Some code \<and> map_of status ''msg'' = Some msg \<and> code \<noteq> JNum 200 \<longrightarrow>
        request get api_key method params =
          Inl (CUMTDAPIError [Lit ''API error '', Fmt code, Lit '': '', Fmt msg])) \<and>
     (status_code response \<noteq> 401 \<and> json_result response = Inr data \<and>
      (map_of data ''status'' = None \<or>
       (\<exists>ok. map_of data ''status'' = Some (JObj ok) \<and> map_of ok ''code'' = Some (JNum 200))) \<longrightarrow>
        request get api_key method params = Inr data)"
proof (intro conjI impI)
  assume "status_code response = 401"
  with assms show
    "request get api_key method params = Inl (AuthenticationError [Lit ''Invalid API key''])"
    by (rule request_unauthorized)
next
  assume "status_code response \<noteq> 401 \<and> json_result response = Inr data \<and>
      map_of data ''status'' = Some (JObj status) \<and>
      map_of status ''code'' = Some code \<and> map_of status ''msg'' = Some msg \<and> code \<noteq> JNum 200"
  with assms show "request get api_key method params =
          Inl (CUMTDAPIError [Lit ''API error '', Fmt code, Lit '': '', Fmt msg])"
    using request_in_band_error [of get "method" api_key params response data status code msg]
    by simp
next
  assume h: "status_code response \<noteq> 401 \<and> json_result response = Inr data \<and>
      (map_of data ''status'' = None \<or>
       (\<exists>ok. map_of data ''status'' = Some (JObj ok) \<and> map_of ok ''code'' = Some (JNum 200)))"
  from h consider
      (absent) "map_of data ''status'' = None"
    | (ok) ok where "map_of data ''status'' = Some (JObj ok)" "map_of ok ''code'' = Some (JNum 200)"
    by auto
  then show "request get api_key method params = Inr data"
  proof cases
    case absent
    with assms h show ?thesis
      using request_parsed [of get "method" api_key params response data] by simp
  next
    case ok
    with assms h show ?thesis
      using request_parsed [of get "method" api_key params response data]
      by (simp add: subscript_def)
  qed
qed

theorem request_classification_witness:
  "request (respond \<lparr>status_code = 401, json_result = Inl JSONDecodeError\<rparr>) ''key'' ''getstops'' []
     = Inl (AuthenticationError [Lit ''Invalid API key'']) \<and>
   request (respond \<lparr>status_code = 200, json_result = Inr body_error\<rparr>) ''key'' ''getstops'' []
     = Inl (CUMTDAPIError
              [Lit ''API error '', Fmt (JNum 500), Lit '': '', Fmt (JStr ''Internal server error'')]) \<and>
   request (respond \<lparr>status_code = 200, json_result = Inr body_ok\<rparr>) ''key'' ''getstops'' []
     = Inr body_ok \<and>
   request (respond \<lparr>status_code = 200, json_result = Inr body_no_status\<rparr>) ''key'' ''getstops'' []
     = Inr body_no_status"
proof -
  have g: "\<And>r. respond r (BASE_URL @ ''/'' @ ''getstops'') (AList.update ''key'' (JStr ''key'') [])
             = Inr r"
    by (simp add: respond_def)
  have "request (respond \<lparr>status_code = 401, json_result = Inl JSONDecodeError\<rparr>)
          ''key'' ''getstops'' [] = Inl (AuthenticationError [Lit ''Invalid API key''])"
    using request_classification
      [of "respond \<lparr>status_code = 401, json_result = Inl JSONDecodeError\<rparr>"
          "''getstops''" "''key''" "[]"
          "\<lparr>status_code = 401, json_result = Inl JSONDecodeError\<rparr>"] g
    by simp
  moreover have "request (respond \<lparr>status_code = 200, json_result = Inr body_error\<rparr>)
          ''key'' ''getstops'' []
     = Inl (CUMTDAPIError
              [Lit ''API error '', Fmt (JNum 500), Lit '': '', Fmt (JStr ''Internal server error'')])"
    using request_classification
      [of "respond \<lparr>status_code = 200, json_result = Inr body_error\<rparr>"
          "''getstops''" "''key''" "[]"
          "\<lparr>status_code = 200, json_result = Inr body_error\<rparr>" body_error
          "[(''code'', JNum 500), (''msg'', JStr ''Internal server error'')]"
          "JNum 500" "JStr ''Internal server error''"] g
    by (simp add: body_error_def)
  moreover have "request (respond \<lparr>status_code = 200, json_result = Inr body_ok\<rparr>)
          ''key'' ''getstops'' [] = Inr body_ok"
    using request_classification
      [of "respond \<lparr>status_code = 200, json_result = Inr body_ok\<rparr>"
          "''getstops''" "''key''" "[]"
          "\<lparr>status_code = 200, json_result = Inr body_ok\<rparr>" body_ok] g
    by (simp add: body_ok_def)
  moreover have "request (respond \<lparr>status_code = 200, json_result = Inr body_no_status\<rparr>)
          ''key'' ''getstops'' [] = Inr body_no_status"
    using request_classification
      [of "respond \<lparr>status_code = 200, json_result = Inr body_no_status\<rparr>"
          "''getstops''" "''key''" "[]"
          "\<lparr>status_code = 200, json_result = Inr body_no_status\<rparr>" body_no_status] g
    by (simp add: body_no_status_def)
  ultimately show ?thesis by simp
qed

text \<open>
  C5. Validation raises an \<open>AuthenticationError\<close> exactly when its probe, the request
  for the stop list, raises it, and then it is the same exception; when the probe raises
  any other \<open>CUMTDAPIError\<close>, validation returns \<open>True\<close>. In terms of the response:
  HTTP status 401 makes validation raise \<open>AuthenticationError\<close>, and a status object
  in the body with a code other than 200 makes it return \<open>True\<close>.
\<close>

theorem validate_api_key_tolerance:
  "(isinstance_AuthenticationError err \<longrightarrow>
      (validate_api_key get api_key = Inl err
         \<longleftrightarrow> request get api_key ''getstops'' [] = Inl err)) \<and>
   (request get api_key ''getstops'' [] = Inl err \<and>
    isinstance_CUMTDAPIError err \<and> \<not> isinstance_AuthenticationError err \<longrightarrow>
      validate_api_key get api_key = Inr True) \<and>
   (get (BASE_URL @ ''/'' @ ''getstops'') (AList.update ''key'' (JStr api_key) []) = Inr response \<and>
    status_code response = 401 \<longrightarrow>
      validate_api_key get api_key = Inl (AuthenticationError [Lit ''Invalid API key''])) \<and>
   (get (BASE_URL @ ''/'' @ ''getstops'') (AList.update ''key'' (JStr api_key) []) = Inr response \<and>
    status_code response \<noteq> 401 \<and> json_result response = Inr data \<and>
    map_of data ''status'' = Some (JObj status) \<and>
    map_of status ''code'' = Some code \<and> map_of status ''msg'' = Some msg \<and> code \<noteq> JNum 200 \<longrightarrow>
      validate_api_key get api_key = Inr True)"
proof (intro conjI impI)
  assume "isinstance_AuthenticationError err"
  then show "validate_api_key get api_key = Inl err
               \<longleftrightarrow> request get api_key ''getstops'' [] = Inl err"
    by (cases "request get api_key ''getstops'' []") (auto simp: validate_api_key_def)
next
  assume "request get api_key ''getstops'' [] = Inl err \<and>
    isinstance_CUMTDAPIError err \<and> \<not> isinstance_AuthenticationError err"
  then show "validate_api_key get api_key = Inr True"
    by (simp add: validate_api_key_def)
next
  assume "get (BASE_URL @ ''/'' @ ''getstops'') (AList.update ''key'' (JStr api_key) []) = Inr response \<and>
    status_code response = 401"
  then have "request get api_key ''getstops'' [] = Inl (AuthenticationError [Lit ''Invalid API key''])"
    using request_unauthorized [of get "''getstops''" api_key "[]" response] by simp
  then show "validate_api_key get api_key = Inl (AuthenticationError [Lit ''Invalid API key''])"
    by (simp add: validate_api_key_def)
next
  assume "get (BASE_URL @ ''/'' @ ''getstops'') (AList.update ''key'' (JStr api_key) []) = Inr response \<and>
    status_code response \<noteq> 401 \<and> json_result response = Inr data \<and>
    map_of data ''status'' = Some (JObj status) \<and>
    map_of status ''code'' = Some code \<and> map_of status ''msg'' = Some msg \<and> code \<noteq> JNum 200"
  then have "request get api_key ''getstops'' [] =
             Inl (CUMTDAPIError [Lit ''API error '', Fmt code, Lit '': '', Fmt msg])"
    using request_in_band_error
      [of get "''getstops''" api_key "[]" response data status code msg]
    by simp
  then show "validate_api_key get api_key = Inr True"
    by (simp add: validate_api_key_def)
qed

theorem validate_api_key_tolerance_witness:
  "validate_api_key (respond \<lparr>status_code = 401, json_result = Inr body_ok\<rparr>) ''invalid_key_12345''
     = Inl (AuthenticationError [Lit ''Invalid API key'']) \<and>
   request (respond \<lparr>status_code = 401, json_result = Inr body_ok\<rparr>) ''invalid_key_12345''
     ''getstops'' [] = Inl (AuthenticationError [Lit ''Invalid API key'']) \<and>
   request (respond \<lparr>status_code = 200, json_result = Inr body_error\<rparr>) ''key'' ''getstops'' []
     = Inl (CUMTDAPIError
         [Lit ''API error '', Fmt (JNum 500), Lit '': '', Fmt (JStr ''Internal server error'')]) \<and>
   validate_api_key (respond \<lparr>status_code = 200, json_result = Inr body_error\<rparr>) ''key''
     = Inr True \<and>
   validate_api_key (respond \<lparr>status_code = 200, json_result = Inr body_ok\<rparr>) ''key''
     = Inr True"
proof -
  let ?unauthorized = "\<lparr>status_code = 401, json_result = Inr body_ok\<rparr>"
  let ?failing = "\<lparr>status_code = 200, json_result = Inr body_error\<rparr>"
  let ?api_error = "CUMTDAPIError
         [Lit ''API error '', Fmt (JNum 500), Lit '': '', Fmt (JStr ''Internal server error'')]"
  have g: "\<And>r k. respond r (BASE_URL @ ''/'' @ ''getstops'') (AList.update ''key'' (JStr k) [])
             = Inr r"
    by (simp add: respond_def)
  have v1: "validate_api_key (respond ?unauthorized) ''invalid_key_12345''
          = Inl (AuthenticationError [Lit ''Invalid API key''])"
    using validate_api_key_tolerance
      [of _ "respond ?unauthorized" "''invalid_key_12345''" ?unauthorized] g
    by simp
  have r1: "request (respond ?unauthorized) ''invalid_key_12345'' ''getstops'' []
          = Inl (AuthenticationError [Lit ''Invalid API key''])"
    using validate_api_key_tolerance
      [of "AuthenticationError [Lit ''Invalid API key'']" "respond ?unauthorized"
          "''invalid_key_12345''"] v1
    by simp
  have r2: "request (respond ?failing) ''key'' ''getstops'' [] = Inl ?api_error"
    by (simp add: request_def respond_def body_error_def subscript_def)
  have v2: "validate_api_key (respond ?failing) ''key'' = Inr True"
    using validate_api_key_tolerance [of ?api_error "respond ?failing" "''key''"] r2
    by simp
  have v2': "validate_api_key (respond ?failing) ''key'' = Inr True"
    using validate_api_key_tolerance
      [of _ "respond ?failing" "''key''" ?failing body_error
          "[(''code'', JNum 500), (''msg'', JStr ''Internal server error'')]"
          "JNum 500" "JStr ''Internal server error''"] g
    by (simp add: body_error_def)
  have v3: "validate_api_key (respond \<lparr>status_code = 200, json_result = Inr body_ok\<rparr>) ''key''
          = Inr True"
    by (simp add: validate_api_key_def request_def respond_def body_ok_def subscript_def)
  from v1 r1 r2 v2 v2' v3 show ?thesis by simp
qed

section \<open>Departures of a stop\<close>

lemma get_departures_by_stop_no_key:
  assumes "request get api_key ''getdeparturesbystop'' (departures_params sid rid cnt) = Inr data"
      and "''departures'' \<notin> fst ` set data"
  shows "get_departures_by_stop validate_datetime Departure_init get api_key sid rid cnt =
         (case map_of data ''time'' of
            None \<Rightarrow> Inl (KeyError ''time'')
          | Some t \<Rightarrow>
              (case validate_datetime t of
                 Inl err \<Rightarrow> Inl err
               | Inr t' \<Rightarrow> Inr \<lparr>time = t', departures = []\<rparr>))"
proof -
  from assms(2) have "map_of data ''departures'' = None"
    by (simp add: map_of_eq_None_iff)
  with assms(1) show ?thesis
    by (simp add: get_departures_by_stop_def split: option.splits)
qed

text \<open>
  C8. When the request succeeds with a body that has no \<open>departures\<close> key, the missing
  key is read as the empty list: with the \<open>time\<close> of the body, which every response
  carries, validated, the result is a \<open>DeparturesResponse\<close> with no departures.
\<close>

theorem missing_departures_key:
  assumes "request get api_key ''getdeparturesbystop'' (departures_params sid rid cnt) = Inr data"
      and "''departures'' \<notin> fst ` set data"
      and "map_of data ''time'' = Some t"
      and "validate_datetime t = Inr t'"
  shows "get_departures_by_stop validate_datetime Departure_init get api_key sid rid cnt =
         Inr \<lparr>time = t', departures = []\<rparr>"
  using get_departures_by_stop_no_key
    [where get = get and api_key = api_key and sid = sid and rid = rid and cnt = cnt
       and data = data and validate_datetime = validate_datetime
       and Departure_init = Departure_init]
    assms
  by simp

theorem missing_departures_key_witness:
  "''departures'' \<notin> fst ` set body_ok \<and>
   get_departures_by_stop test_validate_datetime test_Departure_init
     (respond \<lparr>status_code = 200, json_result = Inr body_ok\<rparr>) ''key'' ''TESTIUTERM'' None (Some 5)
     = Inr \<lparr>time = Datetime 2026 1 17 14 25, departures = []\<rparr>"
proof -
  have r: "request (respond \<lparr>status_code = 200, json_result = Inr body_ok\<rparr>) ''key''
             ''getdeparturesbystop'' (departures_params ''TESTIUTERM'' None (Some 5)) = Inr body_ok"
    by (simp add: request_def respond_def body_ok_def subscript_def)
  have k: "''departures'' \<notin> fst ` set body_ok"
    by (simp add: body_ok_def)
  have t: "map_of body_ok ''time'' = Some (JStr ''2026-01-17T14:25:00-06:00'')"
    by (simp add: body_ok_def)
  have v: "test_validate_datetime (JStr ''2026-01-17T14:25:00-06:00'')
             = Inr (Datetime 2026 1 17 14 25)"
    by (simp add: test_validate_datetime_def)
  from missing_departures_key
    [where get = "respond \<lparr>status_code = 200, json_result = Inr body_ok\<rparr>"
       and validate_datetime = test_validate_datetime and Departure_init = test_Departure_init,
     OF r k t v]
    k
  show ?thesis by simp
qed

section \<open>A tick whose network call fails\<close>

text \<open>
  C7, as the code has it. A failure of the transport is raised by the HTTP library and
  is no \<open>CUMTDAPIError\<close>. \<open>_request\<close> and \<open>get_departures_by_stop\<close> let it pass, and
  so does \<open>_async_update_data\<close>, whose handler catches \<open>CUMTDAPIError\<close> only: the
  failure leaves the refresh as it was raised, not as \<open>UpdateFailed\<close>. The tick fails
  all the same, and ends with \<open>last_data\<close> kept and \<open>last_success\<close> false.
\<close>

theorem transport_failure_keeps_last_data:
  assumes "get (BASE_URL @ ''/'' @ ''getdeparturesbystop'')
             (AList.update ''key'' (JStr api_key)
                (departures_params (stop_id self) (route_id self) (Some 5)))
           = Inl (TransportError m)"
  shows "get_departures_by_stop validate_datetime Departure_init get api_key
           (stop_id self) (route_id self) (Some 5) = Inl (TransportError m) \<and>
         async_update_data lower (get_departures_by_stop validate_datetime Departure_init get api_key) self
           = Inl (TransportError m) \<and>
         last_data (tick lower (get_departures_by_stop validate_datetime Departure_init get api_key) self st)
           = last_data st \<and>
         last_success (tick lower (get_departures_by_stop validate_datetime Departure_init get api_key) self st)
           = False"
proof -
  have r: "request get api_key ''getdeparturesbystop''
             (departures_params (stop_id self) (route_id self) (Some 5)) = Inl (TransportError m)"
    using assms by (rule request_transport_failure)
  then have g: "get_departures_by_stop validate_datetime Departure_init get api_key
           (stop_id self) (route_id self) (Some 5) = Inl (TransportError m)"
    by (simp add: get_departures_by_stop_def)
  then have a: "async_update_data lower
                  (get_departures_by_stop validate_datetime Departure_init get api_key) self
                = Inl (TransportError m)"
    by (simp add: async_update_data_def)
  from g a show ?thesis by (simp add: tick_def refresh_def)
qed

theorem transport_failure_keeps_last_data_witness:
  "async_update_data ascii_lower
     (get_departures_by_stop test_validate_datetime test_Departure_init unreachable ''key'')
     (test_coordinator None) = Inl (TransportError ''ConnectError'') \<and>
   tick ascii_lower (get_departures_by_stop test_validate_datetime test_Departure_init unreachable ''key'')
     (test_coordinator None) \<lparr>last_data = Some departure_east, last_success = True\<rparr>
     = \<lparr>last_data = Some departure_east, last_success = False\<rparr>"
proof -
  let ?self = "test_coordinator None"
  let ?st = "\<lparr>last_data = Some departure_east, last_success = True\<rparr>"
  have u: "unreachable (BASE_URL @ ''/'' @ ''getdeparturesbystop'')
             (AList.update ''key'' (JStr ''key'')
                (departures_params (stop_id ?self) (route_id ?self) (Some 5)))
           = Inl (TransportError ''ConnectError'')"
    by (simp add: unreachable_def)
  from transport_failure_keeps_last_data
    [where lower = ascii_lower and get = unreachable and validate_datetime = test_validate_datetime
       and Departure_init = test_Departure_init and st = ?st, OF u]
  show ?thesis by simp
qed

text \<open>
  The claim C7 says that the failure of the transport gets the classification of an API
  error, which is to be raised as \<open>UpdateFailed\<close>. It does not: with a server that
  cannot be reached the refresh raises the error of the transport itself, while an API
  error from the same call is raised as \<open>UpdateFailed\<close>.
\<close>

theorem transport_failure_counterexample:
  "\<not> isinstance_CUMTDAPIError (TransportError ''ConnectError'') \<and>
   async_update_data ascii_lower
     (get_departures_by_stop test_validate_datetime test_Departure_init unreachable ''key'')
     (test_coordinator None) \<noteq> Inl (UpdateFailed (TransportError ''ConnectError'')) \<and>
   async_update_data ascii_lower
     (get_departures_by_stop test_validate_datetime test_Departure_init unreachable ''key'')
     (test_coordinator None) = Inl (TransportError ''ConnectError'') \<and>
   async_update_data ascii_lower
     (get_departures_by_stop test_validate_datetime test_Departure_init
        (respond \<lparr>status_code = 200, json_result = Inr body_error\<rparr>) ''key'')
     (test_coordinator None)
     = Inl (UpdateFailed (CUMTDAPIError
         [Lit ''API error '', Fmt (JNum 500), Lit '': '', Fmt (JStr ''Internal server error'')]))"
  by (simp add: async_update_data_def get_departures_by_stop_def request_def unreachable_def
      respond_def body_error_def subscript_def)

end
